theory Spec2Isabelle
  imports Complex_Main "HOL-Library.Char_ord" "HOL-Library.List_Lexorder"
begin

section \<open>Numbers, Python values and tables\<close>

text \<open>
  A float64 value is a real number, plus or minus infinity, or NaN. Rounding and the
  sign of zero are outside this model: arithmetic on finite values is exact. An int64
  value is an unbounded integer (the wrap at \<open>2^63\<close> is outside the model).
\<close>

datatype fl = Fin real | PInf | NInf | NaN

fun is_nan :: "fl \<Rightarrow> bool" where
  "is_nan NaN = True"
| "is_nan _ = False"

fun fl_neg :: "fl \<Rightarrow> fl" where
  "fl_neg (Fin a) = Fin (- a)"
| "fl_neg PInf = NInf"
| "fl_neg NInf = PInf"
| "fl_neg NaN = NaN"

fun fl_add :: "fl \<Rightarrow> fl \<Rightarrow> fl" where
  "fl_add NaN _ = NaN"
| "fl_add _ NaN = NaN"
| "fl_add (Fin a) (Fin b) = Fin (a + b)"
| "fl_add PInf NInf = NaN"
| "fl_add NInf PInf = NaN"
| "fl_add PInf _ = PInf"
| "fl_add NInf _ = NInf"
| "fl_add (Fin a) b = b"

definition fl_sub :: "fl \<Rightarrow> fl \<Rightarrow> fl" where
  "fl_sub a b = fl_add a (fl_neg b)"

text \<open>The sign of a value: \<open>-1\<close>, \<open>0\<close> or \<open>1\<close> (0 for NaN, which the callers exclude).\<close>

fun fl_sign :: "fl \<Rightarrow> int" where
  "fl_sign (Fin a) = (if a < 0 then -1 else if a = 0 then 0 else 1)"
| "fl_sign PInf = 1"
| "fl_sign NInf = -1"
| "fl_sign NaN = 0"

definition inf_of_sign :: "int \<Rightarrow> fl" where
  "inf_of_sign s = (if s < 0 then NInf else if s = 0 then NaN else PInf)"

fun fl_mul :: "fl \<Rightarrow> fl \<Rightarrow> fl" where
  "fl_mul NaN _ = NaN"
| "fl_mul _ NaN = NaN"
| "fl_mul (Fin a) (Fin b) = Fin (a * b)"
| "fl_mul a b = inf_of_sign (fl_sign a * fl_sign b)"

text \<open>
  True division as numpy and pandas do it on numeric arrays: no exception; \<open>0/0\<close> is NaN
  and \<open>x/0\<close> is an infinity with the sign of \<open>x\<close> (every zero is \<open>+0\<close> here).
\<close>

fun fl_div :: "fl \<Rightarrow> fl \<Rightarrow> fl" where
  "fl_div NaN _ = NaN"
| "fl_div _ NaN = NaN"
| "fl_div (Fin a) (Fin b) = (if b = 0 then inf_of_sign (fl_sign (Fin a)) else Fin (a / b))"
| "fl_div (Fin a) _ = Fin 0"
| "fl_div a (Fin b) = inf_of_sign (fl_sign a * (if b < 0 then -1 else 1))"
| "fl_div _ _ = NaN"

fun fl_sqrt :: "fl \<Rightarrow> fl" where
  "fl_sqrt (Fin a) = (if a < 0 then NaN else Fin (sqrt a))"
| "fl_sqrt PInf = PInf"
| "fl_sqrt NInf = NaN"
| "fl_sqrt NaN = NaN"

text \<open>The comparison \<open>a > b\<close>: False whenever a NaN is involved.\<close>

fun fl_gt :: "fl \<Rightarrow> fl \<Rightarrow> bool" where
  "fl_gt NaN _ = False"
| "fl_gt _ NaN = False"
| "fl_gt (Fin a) (Fin b) = (a > b)"
| "fl_gt PInf PInf = False"
| "fl_gt PInf _ = True"
| "fl_gt NInf _ = False"
| "fl_gt (Fin a) NInf = True"
| "fl_gt (Fin a) PInf = False"

text \<open>\<open>Series.fillna(0)\<close> on one element.\<close>

definition fillna0 :: "fl \<Rightarrow> fl" where
  "fillna0 x = (if is_nan x then Fin 0 else x)"

text \<open>
  Python values held in object columns: integers, floats, strings and (nested) lists.
\<close>

datatype pyval = PInt int | PFloat fl | PStr string | PList "pyval list"

text \<open>
  A column (a pandas Series) carries its dtype: int64, float64 or object. A table
  (DataFrame) is the list of its named columns in column order; in a well-formed table
  the names are distinct and all columns have the same number of rows. Row labels are
  not modelled: every Series combined below comes from the same table.
\<close>

datatype column = IntCol "int list" | FloatCol "fl list" | ObjCol "pyval list"

type_synonym frame = "(string \<times> column) list"

datatype error =
    KeyError string
  | TypeError
  | ValueError_no_objects
  | OSError
  | UnpicklingError
  | CollaboratorError

definition bindE :: "error + 'a \<Rightarrow> ('a \<Rightarrow> error + 'b) \<Rightarrow> error + 'b" where
  "bindE m f = (case m of Inl e \<Rightarrow> Inl e | Inr x \<Rightarrow> f x)"

fun col_len :: "column \<Rightarrow> nat" where
  "col_len (IntCol xs) = length xs"
| "col_len (FloatCol xs) = length xs"
| "col_len (ObjCol xs) = length xs"

definition columns :: "frame \<Rightarrow> string list" where
  "columns df = map fst df"

definition nrows :: "frame \<Rightarrow> nat" where
  "nrows df = (case df of [] \<Rightarrow> 0 | (c, s) # _ \<Rightarrow> col_len s)"

definition wf_frame :: "frame \<Rightarrow> bool" where
  "wf_frame df = (distinct (columns df) \<and> list_all (\<lambda>(c, s). col_len s = nrows df) df)"

text \<open>\<open>df[c]\<close>: the column, or KeyError.\<close>

definition get_col :: "frame \<Rightarrow> string \<Rightarrow> error + column" where
  "get_col df c = (case map_of df c of None \<Rightarrow> Inl (KeyError c) | Some s \<Rightarrow> Inr s)"

text \<open>\<open>df[c] = s\<close>: replaces the column of that name in place, or appends a new last column.\<close>

fun set_col :: "frame \<Rightarrow> string \<Rightarrow> column \<Rightarrow> frame" where
  "set_col [] c s = [(c, s)]"
| "set_col ((c', s') # df) c s =
     (if c' = c then (c, s) # df else (c', s') # set_col df c s)"

text \<open>
  The numeric content of a column as floats. Arithmetic on an object column applies
  Python's operators cell by cell; the model reports all of it as TypeError, which is
  what strings and lists give in the expressions below (object columns of numbers are
  outside the model).
\<close>

fun to_float :: "column \<Rightarrow> error + fl list" where
  "to_float (IntCol xs) = Inr (map (\<lambda>n. Fin (of_int n)) xs)"
| "to_float (FloatCol xs) = Inr xs"
| "to_float (ObjCol xs) = Inl TypeError"

section \<open>Summary statistics: \<open>get_scores\<close>\<close>

text \<open>
  The four count columns are read first (lines 113-116), then each statistic is computed
  element-wise and stored under its name (lines 118-130). In line 124 \<open>fillna(0)\<close> is
  applied to the denominator \<open>tp + tn + fp + fn\<close>, not to the quotient.
\<close>

definition get_scores :: "frame \<Rightarrow> error + frame" where
  "get_scores agg_df =
     bindE (get_col agg_df ''tp'') (\<lambda>tp_c.
     bindE (get_col agg_df ''tn'') (\<lambda>tn_c.
     bindE (get_col agg_df ''fp'') (\<lambda>fp_c.
     bindE (get_col agg_df ''fn'') (\<lambda>fn_c.
     bindE (to_float tp_c) (\<lambda>tp.
     bindE (to_float fn_c) (\<lambda>fn.
     bindE (to_float tn_c) (\<lambda>tn.
     bindE (to_float fp_c) (\<lambda>fp.
       let tpr = map fillna0 (map2 fl_div tp (map2 fl_add tp fn));
           df1 = set_col agg_df ''tpr'' (FloatCol tpr);
           tnr = map fillna0 (map2 fl_div tn (map2 fl_add tn fp));
           df2 = set_col df1 ''tnr'' (FloatCol tnr);
           precision = map fillna0 (map2 fl_div tp (map2 fl_add tp fp));
           df3 = set_col df2 ''precision'' (FloatCol precision);
           acc = map2 fl_div (map2 fl_add tp tn)
                   (map fillna0 (map2 fl_add (map2 fl_add (map2 fl_add tp tn) fp) fn));
           df4 = set_col df3 ''accuracy'' (FloatCol acc);
           df5 = set_col df4 ''youden''
                   (FloatCol (map (\<lambda>x. fl_sub x (Fin 1)) (map2 fl_add tpr tnr)));
           df6 = set_col df5 ''f1_score''
                   (FloatCol (map (fl_mul (Fin 2))
                      (map fillna0 (map2 fl_div (map2 fl_mul tpr precision)
                                                (map2 fl_add tpr precision)))));
           df7 = set_col df6 ''mcc''
                   (FloatCol (map fillna0
                      (map2 fl_div
                         (map2 fl_sub (map2 fl_mul tp tn) (map2 fl_mul fp fn))
                         (map fl_sqrt
                            (map2 fl_mul
                               (map2 fl_mul
                                  (map2 fl_mul (map2 fl_add tp fp) (map2 fl_add tp fn))
                                  (map2 fl_add tn fp))
                               (map2 fl_add tn fn))))))
       in Inr df7))))))))"

text \<open>The numeric value of row \<open>i\<close> in column \<open>c\<close>, when there is one.\<close>

definition num_at :: "frame \<Rightarrow> string \<Rightarrow> nat \<Rightarrow> fl option" where
  "num_at df c i =
     (case get_col df c of
        Inl _ \<Rightarrow> None
      | Inr s \<Rightarrow> (case to_float s of
                    Inl _ \<Rightarrow> None
                  | Inr xs \<Rightarrow> if i < length xs then Some (xs ! i) else None))"


section \<open>Per-run finalisation of the point estimates\<close>

text \<open>
  A fitted sub-run (\<open>MCMCSubResult\<close>) with its table of posterior summaries and its raw
  count matrix \<open>y\<close>; a run with its parameter table, its sub-runs by index and the
  attribute \<open>_MCMCResult__raw_params\<close> (\<open>None\<close> while the attribute is not set).
\<close>

record mcmc_result =
  params :: frame
  y_counts :: "int list list"

record run =
  parameters :: frame
  mcmc_results :: "(int \<times> mcmc_result) list"
  MCMCResult_raw_params :: "(string \<times> fl list list) list option"


text \<open>\<open>np.where(cond, a, b)\<close> on arrays of one length.\<close>

definition np_where :: "bool list \<Rightarrow> fl list \<Rightarrow> fl list \<Rightarrow> fl list" where
  "np_where cond a b = map (\<lambda>(c, x, z). if c then x else z) (zip cond (zip a b))"

text \<open>
  Lines 81-85 (and 264-268, 391-395): the columns are read in the order in which
  Python evaluates the arguments, so the first missing one is the KeyError. The scalar
  \<open>0\<close> is broadcast. The result is stored as a float64 column.
\<close>

definition finalize_params :: "fl \<Rightarrow> frame \<Rightarrow> error + frame" where
  "finalize_params custom_threshold p =
     bindE (get_col p ''mean_nonzero'') (\<lambda>mn_c.
     bindE (to_float mn_c) (\<lambda>mean_nonzero.
     bindE (get_col p ''mean'') (\<lambda>m_c.
     bindE (get_col p ''inclusion_prob'') (\<lambda>ip_c.
     bindE (to_float ip_c) (\<lambda>inclusion_prob.
     bindE (to_float m_c) (\<lambda>mean.
       Inr (set_col p ''final_parameter''
             (FloatCol
               (np_where (map is_nan mean_nonzero) mean
                  (np_where (map (\<lambda>x. fl_gt x custom_threshold) inclusion_prob)
                     mean_nonzero
                     (replicate (length inclusion_prob) (Fin 0))))))))))))"

text \<open>The loop over \<open>r.mcmc_results.items()\<close>: every sub-result, in dictionary order.\<close>

fun finalize_all :: "fl \<Rightarrow> (int \<times> mcmc_result) list \<Rightarrow> error + (int \<times> mcmc_result) list" where
  "finalize_all thr [] = Inr []"
| "finalize_all thr ((r_k, r_i) # rest) =
     bindE (finalize_params thr (params r_i)) (\<lambda>p.
     bindE (finalize_all thr rest) (\<lambda>rest'.
       Inr ((r_k, r_i\<lparr>params := p\<rparr>) # rest')))"

text \<open>
  The multi-model loops (lines 387-395): the second level is finalised only where the
  table has a \<open>mean_nonzero\<close> column.
\<close>

fun finalize_level2 :: "fl \<Rightarrow> (int \<times> mcmc_result) list \<Rightarrow> error + (int \<times> mcmc_result) list" where
  "finalize_level2 thr [] = Inr []"
| "finalize_level2 thr ((r2_k, r2_i) # rest) =
     (if ''mean_nonzero'' \<in> set (columns (params r2_i)) then
        bindE (finalize_params thr (params r2_i)) (\<lambda>p.
        bindE (finalize_level2 thr rest) (\<lambda>rest'.
          Inr ((r2_k, r2_i\<lparr>params := p\<rparr>) # rest')))
      else
        bindE (finalize_level2 thr rest) (\<lambda>rest'. Inr ((r2_k, r2_i) # rest')))"

fun finalize_level1 ::
  "fl \<Rightarrow> (string \<times> (int \<times> mcmc_result) list) list
      \<Rightarrow> error + (string \<times> (int \<times> mcmc_result) list) list" where
  "finalize_level1 thr [] = Inr []"
| "finalize_level1 thr ((r_k, r_i) # rest) =
     bindE (finalize_level2 thr r_i) (\<lambda>r_i'.
     bindE (finalize_level1 thr rest) (\<lambda>rest'.
       Inr ((r_k, r_i') # rest')))"

section \<open>Concatenation, stringification and aggregation\<close>

text \<open>Decimal digits of an integer, as \<open>str\<close> prints them.\<close>

fun nat_str :: "nat \<Rightarrow> string" where
  "nat_str n =
     (if n < 10 then [''0123456789'' ! n]
      else nat_str (n div 10) @ [''0123456789'' ! (n mod 10)])"

declare nat_str.simps [simp del]

definition int_str :: "int \<Rightarrow> string" where
  "int_str n = (if n < 0 then CHR ''-'' # nat_str (nat (- n)) else nat_str (nat n))"

fun join :: "string \<Rightarrow> string list \<Rightarrow> string" where
  "join sep [] = []"
| "join sep [x] = x"
| "join sep (x # z # zs) = x @ sep @ join sep (z # zs)"

text \<open>
  How Python prints floats and quotes strings (\<open>float.__repr__\<close>, \<open>str.__repr__\<close>) is
  taken as given.
\<close>

record py_format =
  float_repr :: "fl \<Rightarrow> string"
  str_repr :: "string \<Rightarrow> string"

fun py_repr :: "py_format \<Rightarrow> pyval \<Rightarrow> string" where
  "py_repr f (PInt n) = int_str n"
| "py_repr f (PFloat x) = float_repr f x"
| "py_repr f (PStr s) = str_repr f s"
| "py_repr f (PList xs) = ''['' @ join '', '' (map (py_repr f) xs) @ '']''"

definition py_str :: "py_format \<Rightarrow> pyval \<Rightarrow> string" where
  "py_str f v = (case v of PStr s \<Rightarrow> s | _ \<Rightarrow> py_repr f v)"

text \<open>\<open>Series.astype(str)\<close>: every cell becomes the string \<open>str\<close> gives for it.\<close>

fun astype_str :: "py_format \<Rightarrow> column \<Rightarrow> column" where
  "astype_str f (IntCol xs) = ObjCol (map (\<lambda>n. PStr (int_str n)) xs)"
| "astype_str f (FloatCol xs) = ObjCol (map (\<lambda>x. PStr (float_repr f x)) xs)"
| "astype_str f (ObjCol xs) = ObjCol (map (\<lambda>v. PStr (py_str f v)) xs)"

text \<open>\<open>df[cs]\<close> for a list of names: KeyError when one is missing.\<close>

fun get_cols :: "frame \<Rightarrow> string list \<Rightarrow> error + column list" where
  "get_cols df [] = Inr []"
| "get_cols df (c # cs) =
     bindE (get_col df c) (\<lambda>s. bindE (get_cols df cs) (\<lambda>ss. Inr (s # ss)))"

fun set_cols :: "frame \<Rightarrow> (string \<times> column) list \<Rightarrow> frame" where
  "set_cols df [] = df"
| "set_cols df ((c, s) # rest) = set_cols (set_col df c s) rest"

text \<open>\<open>df[cs] = df[cs].astype(str)\<close> (line 99).\<close>

definition astype_str_cols :: "py_format \<Rightarrow> frame \<Rightarrow> string list \<Rightarrow> error + frame" where
  "astype_str_cols f df cs =
     bindE (get_cols df cs) (\<lambda>ss. Inr (set_cols df (zip cs (map (astype_str f) ss))))"

text \<open>
  \<open>pd.concat\<close> of tables, row-wise: an empty list is a ValueError ("No objects to
  concatenate"). The columns are the union of the tables' columns in order of first
  appearance; a table without a column contributes NaN for its rows. The dtype of a
  result column is the common type of its pieces: int64 if all are int64, float64 if
  all are numeric, object otherwise.
\<close>

datatype dtype = Int64 | Float64 | Object

fun dtype_of :: "column \<Rightarrow> dtype" where
  "dtype_of (IntCol xs) = Int64"
| "dtype_of (FloatCol xs) = Float64"
| "dtype_of (ObjCol xs) = Object"

fun dtype_join :: "dtype \<Rightarrow> dtype \<Rightarrow> dtype" where
  "dtype_join Int64 d = d"
| "dtype_join Float64 Object = Object"
| "dtype_join Float64 d = Float64"
| "dtype_join Object d = Object"

definition common_dtype :: "column list \<Rightarrow> dtype" where
  "common_dtype ps = fold dtype_join (map dtype_of ps) Int64"

fun boxed :: "column \<Rightarrow> pyval list" where
  "boxed (IntCol xs) = map PInt xs"
| "boxed (FloatCol xs) = map PFloat xs"
| "boxed (ObjCol xs) = xs"

fun ints_of :: "column \<Rightarrow> int list" where
  "ints_of (IntCol xs) = xs"
| "ints_of _ = []"

fun floats_of :: "column \<Rightarrow> fl list" where
  "floats_of (IntCol xs) = map (\<lambda>n. Fin (of_int n)) xs"
| "floats_of (FloatCol xs) = xs"
| "floats_of (ObjCol xs) = []"

text \<open>The pieces of one column, cast to their common dtype and put one after the other.\<close>

fun column_of :: "dtype \<Rightarrow> column list \<Rightarrow> column" where
  "column_of Int64 ps = IntCol (concat (map ints_of ps))"
| "column_of Float64 ps = FloatCol (concat (map floats_of ps))"
| "column_of Object ps = ObjCol (concat (map boxed ps))"

definition piece :: "string \<Rightarrow> frame \<Rightarrow> column" where
  "piece c df = (case map_of df c of Some s \<Rightarrow> s | None \<Rightarrow> FloatCol (replicate (nrows df) NaN))"

definition concat_col :: "string \<Rightarrow> frame list \<Rightarrow> column" where
  "concat_col c dfs = (let ps = map (piece c) dfs in column_of (common_dtype ps) ps)"

definition all_columns :: "frame list \<Rightarrow> string list" where
  "all_columns dfs =
     fold (\<lambda>c acc. if c \<in> set acc then acc else acc @ [c]) (concat (map columns dfs)) []"

definition pd_concat :: "frame list \<Rightarrow> error + frame" where
  "pd_concat dfs =
     (if dfs = [] then Inl ValueError_no_objects
      else Inr (map (\<lambda>c. (c, concat_col c dfs)) (all_columns dfs)))"

text \<open>
  \<open>groupby(keys).sum()\<close>. The key columns here are always columns of strings (they
  were stringified just before); any other key cell is reported as TypeError. The group
  of a row is the tuple of its key cells; the groups come out sorted (tuples of strings
  in lexicographic order). Every numeric column that is not a key is summed within each
  group, NaN being skipped in a float column; object columns are dropped (the
  \<open>numeric_only\<close> default of the pandas 1.x this code was written for).
\<close>

fun the_strings :: "pyval list \<Rightarrow> error + string list" where
  "the_strings [] = Inr []"
| "the_strings (PStr s # vs) = bindE (the_strings vs) (\<lambda>ss. Inr (s # ss))"
| "the_strings (_ # vs) = Inl TypeError"

fun key_column :: "column \<Rightarrow> error + string list" where
  "key_column (ObjCol vs) = the_strings vs"
| "key_column _ = Inl TypeError"

fun key_columns :: "column list \<Rightarrow> error + string list list" where
  "key_columns [] = Inr []"
| "key_columns (s # ss) =
     bindE (key_column s) (\<lambda>k. bindE (key_columns ss) (\<lambda>ks. Inr (k # ks)))"

text \<open>The key tuple of each of \<open>n\<close> rows, from the key columns.\<close>

definition row_keys :: "nat \<Rightarrow> string list list \<Rightarrow> string list list" where
  "row_keys n kcols = map (\<lambda>i. map (\<lambda>k. k ! i) kcols) [0..<n]"

definition nansum :: "fl list \<Rightarrow> fl" where
  "nansum xs = foldl fl_add (Fin 0) (filter (\<lambda>x. \<not> is_nan x) xs)"

definition members :: "'k list \<Rightarrow> 'a list \<Rightarrow> 'k \<Rightarrow> 'a list" where
  "members keys xs g = map snd (filter (\<lambda>(k, x). k = g) (zip keys xs))"

fun sum_column :: "string list list \<Rightarrow> string list list \<Rightarrow> column \<Rightarrow> column option" where
  "sum_column keys groups (IntCol xs) = Some (IntCol (map (\<lambda>g. sum_list (members keys xs g)) groups))"
| "sum_column keys groups (FloatCol xs) = Some (FloatCol (map (\<lambda>g. nansum (members keys xs g)) groups))"
| "sum_column keys groups (ObjCol xs) = None"

definition sum_columns :: "string list list \<Rightarrow> string list list \<Rightarrow> frame \<Rightarrow> frame" where
  "sum_columns keys groups df =
     concat (map (\<lambda>(c, s). case sum_column keys groups s of None \<Rightarrow> [] | Some s' \<Rightarrow> [(c, s')]) df)"

text \<open>The group key of every row.\<close>

definition group_keys :: "string list \<Rightarrow> frame \<Rightarrow> error + string list list" where
  "group_keys by df =
     bindE (get_cols df by) (\<lambda>ss.
     bindE (key_columns ss) (\<lambda>kcols. Inr (row_keys (nrows df) kcols)))"

definition groupby_sum :: "string list \<Rightarrow> frame \<Rightarrow> error + (string list list \<times> frame)" where
  "groupby_sum by df =
     bindE (group_keys by df) (\<lambda>keys.
       let groups = sort (remdups keys)
       in Inr (groups, sum_columns keys groups (filter (\<lambda>(c, s). c \<notin> set by) df)))"

text \<open>\<open>reset_index()\<close>: the group keys become the leading columns, one per key name.\<close>

definition reset_index :: "string list \<Rightarrow> string list list \<times> frame \<Rightarrow> frame" where
  "reset_index by g =
     map (\<lambda>j. (by ! j, ObjCol (map (\<lambda>k. PStr (k ! j)) (fst g)))) [0..<length by] @ snd g"

definition simulation_parameters :: "string list" where
  "simulation_parameters =
     [''cases'', ''K'', ''n_total'', ''n_samples'', ''b_true'', ''w_true'', ''num_results'']"

text \<open>Lines 97-104: the raw concatenated table and the aggregated one.\<close>

definition study_tables :: "py_format \<Rightarrow> frame list \<Rightarrow> error + (frame \<times> frame)" where
  "study_tables f tables =
     bindE (pd_concat tables) (\<lambda>all_study_params0.
     bindE (astype_str_cols f all_study_params0 simulation_parameters) (\<lambda>all_study_params.
     bindE (groupby_sum simulation_parameters all_study_params) (\<lambda>all_study_params_agg.
       Inr (all_study_params, reset_index simulation_parameters all_study_params_agg))))"

section \<open>The study aggregator\<close>

text \<open>\<open>s in t\<close> on strings.\<close>

fun is_substring :: "string \<Rightarrow> string \<Rightarrow> bool" where
  "is_substring s [] = (s = [])"
| "is_substring s (c # t) = (take (length s) (c # t) = s \<or> is_substring s t)"

text \<open>
  What the functions take from outside: the directory listing (\<open>os.listdir\<close>), the
  loading of one file (\<open>open\<close> and \<open>renamed_load\<close>), both of which may fail, and
  Python's printing of floats and strings.
\<close>

record 'r env =
  listdir :: "string \<Rightarrow> error + string list"
  load_file :: "string \<Rightarrow> error + 'r"
  fmt :: py_format

text \<open>
  The loop over the files (lines 71-94). \<open>disc\<close> is the run's own method
  (\<open>get_discovery_rates\<close> or \<open>get_discovery_rates_per_param\<close>), which updates the run
  and may fail. The first failure ends the loop. The run is appended in both branches
  of \<open>keep_results\<close>.
\<close>

fun collect_results ::
  "run env \<Rightarrow> (run \<Rightarrow> error + run) \<Rightarrow> string \<Rightarrow> string \<Rightarrow> fl \<Rightarrow> bool \<Rightarrow> string list
     \<Rightarrow> error + run list" where
  "collect_results e disc path file_identifier thr keep_results [] = Inr []"
| "collect_results e disc path file_identifier thr keep_results (f # files) =
     (if is_substring file_identifier f then
        bindE (load_file e (path @ ''/'' @ f)) (\<lambda>r.
        bindE (finalize_all thr (mcmc_results r)) (\<lambda>m.
        bindE (disc (r\<lparr>mcmc_results := m\<rparr>)) (\<lambda>r'.
        bindE (collect_results e disc path file_identifier thr keep_results files) (\<lambda>rs.
          Inr ((if keep_results then r' else r'\<lparr>MCMCResult_raw_params := Some []\<rparr>) # rs)))))
      else collect_results e disc path file_identifier thr keep_results files)"

definition multi_run_study_analysis_prepare ::
  "run env \<Rightarrow> (run \<Rightarrow> error + run) \<Rightarrow> string \<Rightarrow> string \<Rightarrow> fl \<Rightarrow> bool
     \<Rightarrow> error + (run list \<times> frame \<times> frame)" where
  "multi_run_study_analysis_prepare e get_discovery_rates path file_identifier
       custom_threshold keep_results =
     bindE (listdir e path) (\<lambda>files.
     bindE (collect_results e get_discovery_rates path file_identifier custom_threshold
              keep_results files) (\<lambda>rs.
     bindE (study_tables (fmt e) (map parameters rs)) (\<lambda>(all_study_params, agg).
       Inr (rs, all_study_params, agg))))"

definition multi_run_study_analysis_prepare_per_param ::
  "run env \<Rightarrow> (run \<Rightarrow> error + run) \<Rightarrow> string \<Rightarrow> string \<Rightarrow> fl \<Rightarrow> bool
     \<Rightarrow> error + (run list \<times> frame \<times> frame)" where
  "multi_run_study_analysis_prepare_per_param e get_discovery_rates_per_param path
       file_identifier custom_threshold keep_results =
     bindE (listdir e path) (\<lambda>files.
     bindE (collect_results e get_discovery_rates_per_param path file_identifier
              custom_threshold keep_results files) (\<lambda>rs.
     bindE (study_tables (fmt e) (map parameters rs)) (\<lambda>(all_study_params, agg).
       Inr (rs, all_study_params, agg))))"




section \<open>Statements of the specification\<close>










section \<open>Example data\<close>


text \<open>
  An aggregated table of three groups: the counts of the worked example, a group without
  positives, and a group in which all four counts are zero.
\<close>

definition counts_example :: frame where
  "counts_example =
     [(''w_true'', ObjCol [PStr ''[[0, 1]]'', PStr ''[[1, 1]]'', PStr ''[[2, 1]]'']),
      (''tp'', IntCol [8, 0, 0]), (''tn'', IntCol [7, 5, 0]),
      (''fp'', IntCol [3, 5, 0]), (''fn'', IntCol [2, 0, 0])]"

definition scores_example :: frame where
  "scores_example =
     [(''w_true'', ObjCol [PStr ''[[0, 1]]'', PStr ''[[1, 1]]'', PStr ''[[2, 1]]'']),
      (''tp'', IntCol [8, 0, 0]), (''tn'', IntCol [7, 5, 0]),
      (''fp'', IntCol [3, 5, 0]), (''fn'', IntCol [2, 0, 0]),
      (''tpr'', FloatCol [Fin (4 / 5), Fin 0, Fin 0]),
      (''tnr'', FloatCol [Fin (7 / 10), Fin (1 / 2), Fin 0]),
      (''precision'', FloatCol [Fin (8 / 11), Fin 0, Fin 0]),
      (''accuracy'', FloatCol [Fin (3 / 4), Fin (1 / 2), NaN]),
      (''youden'', FloatCol [Fin (1 / 2), Fin (- (1 / 2)), Fin (- 1)]),
      (''f1_score'', FloatCol [Fin (16 / 21), Fin 0, Fin 0]),
      (''mcc'', FloatCol [Fin (50 / sqrt 9900), Fin 0, Fin 0])]"

text \<open>
  Python's printing, as far as the examples need it (no float other than \<open>1.0\<close> and
  \<open>0.0\<close> is printed in them), and a quoting of strings.
\<close>

definition fmt_example :: py_format where
  "fmt_example =
     \<lparr>float_repr = (\<lambda>x. case x of Fin r \<Rightarrow> (if r = 1 then ''1.0'' else ''0.0'')
                            | PInf \<Rightarrow> ''inf'' | NInf \<Rightarrow> ''-inf'' | NaN \<Rightarrow> ''nan''),
      str_repr = (\<lambda>s. [CHR 0x27] @ s @ [CHR 0x27])\<rparr>"

text \<open>
  Posterior summaries of four coefficients: inclusion above, below and at the
  threshold \<open>0.5\<close>, and one coefficient without a sparsity decomposition.
\<close>

definition params_example :: frame where
  "params_example =
     [(''mean'', FloatCol [Fin (6 / 5), Fin (4 / 5), Fin 1, Fin (3 / 10)]),
      (''mean_nonzero'', FloatCol [Fin 2, Fin 2, Fin 2, NaN]),
      (''inclusion_prob'', FloatCol [Fin (3 / 5), Fin (2 / 5), Fin (1 / 2), Fin (9 / 10)])]"

definition finalized_example :: frame where
  "finalized_example =
     params_example @ [(''final_parameter'', FloatCol [Fin 2, Fin 0, Fin 0, Fin (3 / 10)])]"

text \<open>A run of two sub-runs, as loaded, and a discovery-rate method that adds counts.\<close>

definition design_example :: frame where
  "design_example =
     [(''cases'', IntCol [1, 1]), (''K'', IntCol [2, 2]), (''n_total'', IntCol [1000, 1000]),
      (''n_samples'', ObjCol [PList [PInt 5, PInt 5], PList [PInt 10, PInt 5]]),
      (''b_true'', ObjCol [PList [PInt 1, PInt 1], PList [PInt 1, PInt 1]]),
      (''w_true'', ObjCol [PList [PList [PInt 0, PInt 1]], PList [PList [PInt 0, PInt 1]]]),
      (''num_results'', IntCol [2, 2])]"

definition run_example :: run where
  "run_example =
     \<lparr>parameters = design_example,
      mcmc_results = [(0, \<lparr>params = params_example, y_counts = [[480, 520], [455, 545]]\<rparr>),
                      (1, \<lparr>params = params_example, y_counts = [[510, 490], [470, 530]]\<rparr>)],
      MCMCResult_raw_params = Some [(''beta'', [[Fin 2, Fin 0], [Fin 2, Fin (3 / 10)]])]\<rparr>"

definition discovery_example :: "run \<Rightarrow> error + run" where
  "discovery_example r =
     Inr (r\<lparr>parameters :=
            set_cols (parameters r)
              [(''tp'', IntCol (replicate (nrows (parameters r)) 1)),
               (''tn'', IntCol (replicate (nrows (parameters r)) 2)),
               (''fp'', IntCol (replicate (nrows (parameters r)) 0)),
               (''fn'', IntCol (replicate (nrows (parameters r)) 1))]\<rparr>)"

definition env_example :: "run env" where
  "env_example =
     \<lparr>listdir = (\<lambda>p. if p = ''runs'' then Inr [''result_a.pkl'', ''notes.txt'', ''result_b.pkl'']
                     else if p = ''other'' then Inr [''notes.txt'', ''resul_1.pkl'']
                     else Inl OSError),
      load_file = (\<lambda>p. if p = ''runs/result_a.pkl'' \<or> p = ''runs/result_b.pkl''
                        then Inr run_example else Inl UnpicklingError),
      fmt = fmt_example\<rparr>"





text \<open>
  A run of the multi-model variant: under one condition, a sub-result with a sparsity
  decomposition and one without.
\<close>

definition plain_params_example :: frame where
  "plain_params_example = [(''mean'', FloatCol [Fin (6 / 5), Fin (4 / 5)])]"

definition multi_results_example :: "(string \<times> (int \<times> mcmc_result) list) list" where
  "multi_results_example =
     [(''model_a'', [(0, \<lparr>params = params_example, y_counts = [[480, 520]]\<rparr>),
                     (1, \<lparr>params = plain_params_example, y_counts = [[510, 490]]\<rparr>)])]"

definition multi_finalized_example :: "(string \<times> (int \<times> mcmc_result) list) list" where
  "multi_finalized_example =
     [(''model_a'', [(0, \<lparr>params = finalized_example, y_counts = [[480, 520]]\<rparr>),
                     (1, \<lparr>params = plain_params_example, y_counts = [[510, 490]]\<rparr>)])]"










section \<open>Properties of tables\<close>

lemma map_of_set_col:
  "map_of (set_col df c s) c' = (if c' = c then Some s else map_of df c')"
  by (induction df c s rule: set_col.induct) auto


lemma get_col_set_col:
  "get_col (set_col df c s) c' = (if c' = c then Inr s else get_col df c')"
  by (simp add: get_col_def map_of_set_col)

lemma get_col_Inr_columns: "get_col df c = Inr s \<Longrightarrow> c \<in> set (columns df)"
  by (force simp: get_col_def columns_def split: option.splits dest: map_of_SomeD)

lemma columns_get_col: "c \<in> set (columns df) \<Longrightarrow> \<exists>s. get_col df c = Inr s"
  by (auto simp: get_col_def columns_def map_of_eq_None_iff split: option.splits)

lemma num_at_set_col:
  "num_at (set_col df c s) c' i =
     (if c' = c then
        (case to_float s of
           Inl _ \<Rightarrow> None
         | Inr xs \<Rightarrow> if i < length xs then Some (xs ! i) else None)
      else num_at df c' i)"
  by (simp add: num_at_def get_col_set_col)

lemma num_atD:
  "num_at df c i = Some x \<Longrightarrow>
     \<exists>s xs. get_col df c = Inr s \<and> to_float s = Inr xs \<and> i < length xs \<and> xs ! i = x"
  by (auto simp: num_at_def split: sum.splits if_splits)

section \<open>Properties of \<open>get_scores\<close>\<close>

text \<open>Row by row, each statistic is the formula of the source on the counts of that row.\<close>

lemma get_scores_row:
  assumes "get_scores df = Inr df'"
    and "num_at df ''tp'' i = Some tp" and "num_at df ''tn'' i = Some tn"
    and "num_at df ''fp'' i = Some fp" and "num_at df ''fn'' i = Some fn"
  shows "num_at df' ''tpr'' i = Some (fillna0 (fl_div tp (fl_add tp fn)))"
    and "num_at df' ''tnr'' i = Some (fillna0 (fl_div tn (fl_add tn fp)))"
    and "num_at df' ''precision'' i = Some (fillna0 (fl_div tp (fl_add tp fp)))"
    and "num_at df' ''accuracy'' i =
           Some (fl_div (fl_add tp tn) (fillna0 (fl_add (fl_add (fl_add tp tn) fp) fn)))"
    and "num_at df' ''youden'' i =
           Some (fl_sub (fl_add (fillna0 (fl_div tp (fl_add tp fn)))
                                (fillna0 (fl_div tn (fl_add tn fp)))) (Fin 1))"
    and "num_at df' ''f1_score'' i =
           Some (fl_mul (Fin 2) (fillna0 (fl_div
                  (fl_mul (fillna0 (fl_div tp (fl_add tp fn))) (fillna0 (fl_div tp (fl_add tp fp))))
                  (fl_add (fillna0 (fl_div tp (fl_add tp fn))) (fillna0 (fl_div tp (fl_add tp fp)))))))"
    and "num_at df' ''mcc'' i =
           Some (fillna0 (fl_div (fl_sub (fl_mul tp tn) (fl_mul fp fn))
                  (fl_sqrt (fl_mul (fl_mul (fl_mul (fl_add tp fp) (fl_add tp fn)) (fl_add tn fp))
                                   (fl_add tn fn)))))"
  using assms(1) num_atD[OF assms(2)] num_atD[OF assms(3)] num_atD[OF assms(4)] num_atD[OF assms(5)]
  by (auto simp: get_scores_def bindE_def num_at_set_col Let_def)

lemma get_scores_example: "get_scores counts_example = Inr scores_example"
  by (simp add: counts_example_def scores_example_def get_scores_def get_col_def bindE_def
        fillna0_def fl_sub_def Let_def inf_of_sign_def)


text \<open>
  C2, as the code has it: in a row in which all four counts are zero the accuracy is
  \<open>0/0\<close>, which is NaN; \<open>fillna(0)\<close> was applied to the denominator and changes nothing.
  The third row of the example table is such a row.
\<close>

theorem get_scores_accuracy_zero_counts:
  "get_scores counts_example = Inr scores_example \<and>
   num_at counts_example ''tp'' 2 = Some (Fin 0) \<and>
   num_at counts_example ''tn'' 2 = Some (Fin 0) \<and>
   num_at counts_example ''fp'' 2 = Some (Fin 0) \<and>
   num_at counts_example ''fn'' 2 = Some (Fin 0) \<and>
   num_at scores_example ''accuracy'' 2 = Some NaN"
  by (simp add: get_scores_example)
     (simp add: counts_example_def scores_example_def num_at_def get_col_def)

text \<open>The same in every table: all four counts zero gives the accuracy NaN.\<close>

lemma get_scores_accuracy_nan:
  assumes "get_scores df = Inr df'"
    and "num_at df ''tp'' i = Some (Fin 0)" and "num_at df ''tn'' i = Some (Fin 0)"
    and "num_at df ''fp'' i = Some (Fin 0)" and "num_at df ''fn'' i = Some (Fin 0)"
  shows "num_at df' ''accuracy'' i = Some NaN"
  using get_scores_row(4)[OF assms] by (simp add: fillna0_def inf_of_sign_def)



text \<open>
  C8: a row with \<open>tp = 8\<close>, \<open>fn = 2\<close>, \<open>tn = 7\<close>, \<open>fp = 3\<close> gets \<open>tpr = 0.8\<close>, \<open>tnr = 0.7\<close>,
  \<open>precision = 8/11\<close>, \<open>accuracy = 0.75\<close> and \<open>youden = 0.5\<close>.
\<close>

theorem get_scores_worked_example:
  assumes "get_scores df = Inr df'"
    and "num_at df ''tp'' i = Some (Fin 8)" and "num_at df ''tn'' i = Some (Fin 7)"
    and "num_at df ''fp'' i = Some (Fin 3)" and "num_at df ''fn'' i = Some (Fin 2)"
  shows "num_at df' ''tpr'' i = Some (Fin (8 / 10)) \<and>
         num_at df' ''tnr'' i = Some (Fin (7 / 10)) \<and>
         num_at df' ''precision'' i = Some (Fin (8 / 11)) \<and>
         num_at df' ''accuracy'' i = Some (Fin (15 / 20)) \<and>
         num_at df' ''youden'' i = Some (Fin (1 / 2))"
  using get_scores_row(1-5)[OF assms]
  by (simp add: fillna0_def fl_sub_def)

theorem get_scores_worked_example_witness:
  "get_scores counts_example = Inr scores_example \<and>
   num_at counts_example ''tp'' 0 = Some (Fin 8) \<and>
   num_at counts_example ''tn'' 0 = Some (Fin 7) \<and>
   num_at counts_example ''fp'' 0 = Some (Fin 3) \<and>
   num_at counts_example ''fn'' 0 = Some (Fin 2) \<and>
   num_at scores_example ''tpr'' 0 = Some (Fin (8 / 10)) \<and>
   num_at scores_example ''tnr'' 0 = Some (Fin (7 / 10)) \<and>
   num_at scores_example ''precision'' 0 = Some (Fin (8 / 11)) \<and>
   num_at scores_example ''accuracy'' 0 = Some (Fin (15 / 20)) \<and>
   num_at scores_example ''youden'' 0 = Some (Fin (1 / 2))"
proof -
  have cnt: "num_at counts_example ''tp'' 0 = Some (Fin 8)"
      "num_at counts_example ''tn'' 0 = Some (Fin 7)"
      "num_at counts_example ''fp'' 0 = Some (Fin 3)"
      "num_at counts_example ''fn'' 0 = Some (Fin 2)"
    by (simp_all add: counts_example_def num_at_def get_col_def)
  show ?thesis
    using get_scores_worked_example[OF get_scores_example cnt] get_scores_example cnt
    by simp
qed



section \<open>Properties of the finalisation and of the study aggregator\<close>


lemma bindE_Inl: "bindE (Inl e) f = Inl e"
  by (simp add: bindE_def)

lemma get_col_missing: "c \<notin> set (columns df) \<Longrightarrow> get_col df c = Inl (KeyError c)"
  by (simp add: get_col_def columns_def map_of_eq_None_iff[THEN iffD2])



text \<open>The \<open>in\<close> of the file filter is the substring relation.\<close>

lemma is_substring_iff: "is_substring s t \<longleftrightarrow> (\<exists>pre suf. t = pre @ s @ suf)"
proof (induction t)
  case Nil
  then show ?case by auto
next
  case (Cons c t)
  show ?case
  proof
    assume "is_substring s (c # t)"
    then consider "take (length s) (c # t) = s" | "is_substring s t" by auto
    then show "\<exists>pre suf. c # t = pre @ s @ suf"
    proof cases
      case 1
      then have "c # t = [] @ s @ drop (length s) (c # t)"
        by (metis append_Nil append_take_drop_id)
      then show ?thesis by blast
    next
      case 2
      then obtain pre suf where "t = pre @ s @ suf" using Cons.IH by blast
      then have "c # t = (c # pre) @ s @ suf" by simp
      then show ?thesis by blast
    qed
  next
    assume "\<exists>pre suf. c # t = pre @ s @ suf"
    then obtain pre suf where e: "c # t = pre @ s @ suf" by blast
    show "is_substring s (c # t)"
    proof (cases pre)
      case Nil
      then have "take (length s) (c # t) = s" using e by simp
      then show ?thesis by simp
    next
      case (Cons p pre')
      then have "t = pre' @ s @ suf" using e by simp
      then show ?thesis using Cons.IH by auto
    qed
  qed
qed




text \<open>The example run through the aggregator.\<close>

lemma finalize_example: "finalize_params (Fin (1 / 2)) params_example = Inr finalized_example"
  by (simp add: finalize_params_def params_example_def finalized_example_def get_col_def
        bindE_def np_where_def)






text \<open>
  C6: when no name in the listing of the directory contains \<open>file_identifier\<close>, no run is
  collected and \<open>pd.concat\<close> of the empty list raises its ValueError; no table is
  returned.
\<close>

lemma collect_results_no_match:
  "\<forall>f \<in> set files. \<not> is_substring fid f \<Longrightarrow>
     collect_results e disc path fid thr keep files = Inr []"
  by (induction files) auto

lemma study_tables_Nil: "study_tables f [] = Inl ValueError_no_objects"
  by (simp add: study_tables_def pd_concat_def bindE_def)

theorem prepare_no_matching_file:
  assumes "listdir e path = Inr files"
    and "\<forall>f \<in> set files. \<not> is_substring file_identifier f"
  shows "multi_run_study_analysis_prepare e disc path file_identifier thr keep
           = Inl ValueError_no_objects"
  using assms
  by (simp add: multi_run_study_analysis_prepare_def bindE_def collect_results_no_match
        study_tables_Nil)

theorem prepare_no_matching_file_witness:
  "listdir env_example ''other'' = Inr [''notes.txt'', ''resul_1.pkl''] \<and>
   \<not> is_substring ''result_'' ''notes.txt'' \<and>
   \<not> is_substring ''result_'' ''resul_1.pkl'' \<and>
   multi_run_study_analysis_prepare env_example discovery_example ''other'' ''result_''
     (Fin (1 / 2)) False = Inl ValueError_no_objects"
proof -
  have l: "listdir env_example ''other'' = Inr [''notes.txt'', ''resul_1.pkl'']"
    by (simp add: env_example_def)
  have n: "\<forall>f \<in> set [''notes.txt'', ''resul_1.pkl'']. \<not> is_substring ''result_'' f"
    by simp
  show ?thesis
    using prepare_no_matching_file[OF l n, of discovery_example "Fin (1 / 2)" False] l n
    by simp
qed

text \<open>
  C9: the multi-model finalisation leaves a second-level sub-result whose table has no
  \<open>mean_nonzero\<close> column exactly as it was, at its place. The single-model step on the
  same table raises the KeyError, and so does the single-model loop on a dictionary that
  holds such a sub-result.
\<close>

lemma finalize_level2_unchanged:
  "finalize_level2 thr ms = Inr ms' \<Longrightarrow>
     length ms' = length ms \<and>
     (\<forall>j < length ms. fst (ms' ! j) = fst (ms ! j) \<and>
        (''mean_nonzero'' \<notin> set (columns (params (snd (ms ! j)))) \<longrightarrow> ms' ! j = ms ! j))"
proof (induction ms arbitrary: ms')
  case Nil
  then show ?case by simp
next
  case (Cons a ms)
  obtain k2 sub where a: "a = (k2, sub)" by (cases a)
  from Cons.prems obtain x rest' where
    r: "finalize_level2 thr ms = Inr rest'" and m: "ms' = x # rest'" and
    x: "fst x = k2" "''mean_nonzero'' \<notin> set (columns (params sub)) \<longrightarrow> x = (k2, sub)"
    by (auto simp: a bindE_def split: sum.splits if_splits)
  from Cons.IH[OF r] have ih: "length rest' = length ms"
    "\<forall>j < length ms. fst (rest' ! j) = fst (ms ! j) \<and>
        (''mean_nonzero'' \<notin> set (columns (params (snd (ms ! j)))) \<longrightarrow> rest' ! j = ms ! j)"
    by auto
  show ?case
    using ih x by (auto simp: m a nth_Cons split: nat.splits)
qed

lemma finalize_level1_levels:
  "finalize_level1 thr rs = Inr rs' \<Longrightarrow>
     length rs' = length rs \<and>
     (\<forall>i < length rs. fst (rs' ! i) = fst (rs ! i) \<and>
        finalize_level2 thr (snd (rs ! i)) = Inr (snd (rs' ! i)))"
proof (induction rs arbitrary: rs')
  case Nil
  then show ?case by simp
next
  case (Cons a rs)
  obtain k inner where a: "a = (k, inner)" by (cases a)
  from Cons.prems obtain inner' rest' where
    i: "finalize_level2 thr inner = Inr inner'" and
    r: "finalize_level1 thr rs = Inr rest'" and m: "rs' = (k, inner') # rest'"
    by (auto simp: a bindE_def split: sum.splits)
  show ?case using Cons.IH[OF r] i by (auto simp: m a nth_Cons split: nat.splits)
qed

lemma finalize_all_needs_mean_nonzero:
  "(k, sub) \<in> set ms \<Longrightarrow> ''mean_nonzero'' \<notin> set (columns (params sub)) \<Longrightarrow>
     \<exists>err. finalize_all thr ms = Inl err"
proof (induction ms)
  case Nil
  then show ?case by simp
next
  case (Cons a ms)
  obtain r_k r_i where a: "a = (r_k, r_i)" by (cases a)
  show ?case
  proof (cases "(k, sub) = a")
    case True
    then have "get_col (params r_i) ''mean_nonzero'' = Inl (KeyError ''mean_nonzero'')"
      using Cons.prems(2) a by (simp add: get_col_missing)
    then show ?thesis by (simp add: a finalize_params_def bindE_def)
  next
    case False
    then have "\<exists>err. finalize_all thr ms = Inl err" using Cons by auto
    then show ?thesis by (auto simp: a bindE_def split: sum.splits)
  qed
qed

theorem multi_model_skips_without_mean_nonzero:
  assumes "finalize_level1 thr rs = Inr rs'"
    and "i < length rs" and "j < length (snd (rs ! i))"
    and "''mean_nonzero'' \<notin> set (columns (params (snd (snd (rs ! i) ! j))))"
  shows "i < length rs' \<and> j < length (snd (rs' ! i)) \<and>
         fst (rs' ! i) = fst (rs ! i) \<and>
         snd (rs' ! i) ! j = snd (rs ! i) ! j \<and>
         finalize_params thr (params (snd (snd (rs ! i) ! j))) = Inl (KeyError ''mean_nonzero'') \<and>
         (\<exists>err. finalize_all thr (snd (rs ! i)) = Inl err)"
proof -
  from finalize_level1_levels[OF assms(1)] assms(2) have
    l1: "length rs' = length rs" "fst (rs' ! i) = fst (rs ! i)" and
    l2: "finalize_level2 thr (snd (rs ! i)) = Inr (snd (rs' ! i))"
    by auto
  from finalize_level2_unchanged[OF l2] assms(3,4) have
    u: "length (snd (rs' ! i)) = length (snd (rs ! i))" "snd (rs' ! i) ! j = snd (rs ! i) ! j"
    by auto
  have k: "finalize_params thr (params (snd (snd (rs ! i) ! j))) = Inl (KeyError ''mean_nonzero'')"
    using assms(4) by (simp add: finalize_params_def get_col_missing bindE_def)
  have "snd (rs ! i) ! j \<in> set (snd (rs ! i))" using assms(3) by simp
  then have "(fst (snd (rs ! i) ! j), snd (snd (rs ! i) ! j)) \<in> set (snd (rs ! i))" by simp
  then have "\<exists>err. finalize_all thr (snd (rs ! i)) = Inl err"
    using finalize_all_needs_mean_nonzero assms(4) by blast
  then show ?thesis using l1 u k assms(2,3) by simp
qed

lemma finalize_level1_example:
  "finalize_level1 (Fin (1 / 2)) multi_results_example = Inr multi_finalized_example"
proof -
  have c1: "''mean_nonzero'' \<in> set (columns params_example)"
    by (simp add: params_example_def columns_def)
  have c2: "''mean_nonzero'' \<notin> set (columns plain_params_example)"
    by (simp add: plain_params_example_def columns_def)
  show ?thesis
    by (simp add: multi_results_example_def multi_finalized_example_def finalize_example
          c1 c2 bindE_def)
qed

theorem multi_model_skips_without_mean_nonzero_witness:
  "finalize_level1 (Fin (1 / 2)) multi_results_example = Inr multi_finalized_example \<and>
   ''mean_nonzero'' \<notin> set (columns plain_params_example) \<and>
   snd (multi_finalized_example ! 0) ! 1 =
     (1, \<lparr>params = plain_params_example, y_counts = [[510, 490]]\<rparr>) \<and>
   finalize_params (Fin (1 / 2)) plain_params_example = Inl (KeyError ''mean_nonzero'')"
proof -
  have i: "0 < length multi_results_example"
    by (simp add: multi_results_example_def)
  have j: "1 < length (snd (multi_results_example ! 0))"
    by (simp add: multi_results_example_def)
  have s: "snd (multi_results_example ! 0) ! 1 =
             (1, \<lparr>params = plain_params_example, y_counts = [[510, 490]]\<rparr>)"
    by (simp add: multi_results_example_def)
  have n: "''mean_nonzero'' \<notin> set (columns plain_params_example)"
    by (simp add: plain_params_example_def columns_def)
  have n': "''mean_nonzero'' \<notin>
              set (columns (params (snd (snd (multi_results_example ! 0) ! 1))))"
    using n s by simp
  show ?thesis
    using multi_model_skips_without_mean_nonzero[OF finalize_level1_example i j n'] s n
      finalize_level1_example
    by simp
qed

text \<open>
  C10: with \<open>keep_results\<close> off, every function returns what it returns with
  \<open>keep_results\<close> on, except that in each run of the list \<open>_MCMCResult__raw_params\<close> is
  the empty mapping (a failure is the same failure); the two tables are the same. The
  list has one run for each file of the listing whose name contains \<open>file_identifier\<close>.
\<close>

lemma collect_results_keep:
  "collect_results e disc path fid thr False files =
     map_sum id (map (\<lambda>r. r\<lparr>MCMCResult_raw_params := Some []\<rparr>))
       (collect_results e disc path fid thr True files)"
  by (induction files) (auto simp: bindE_def split: sum.splits)





lemma prepare_per_param_keep:
  "multi_run_study_analysis_prepare_per_param e disc path fid thr False =
     map_sum id (\<lambda>(rs, t, a). (map (\<lambda>r. r\<lparr>MCMCResult_raw_params := Some []\<rparr>) rs, t, a))
       (multi_run_study_analysis_prepare_per_param e disc path fid thr True)"
  by (auto simp: multi_run_study_analysis_prepare_per_param_def bindE_def
        collect_results_keep[of e disc path fid thr] comp_def split: sum.splits)







section \<open>Properties of stringification and grouping\<close>






















section \<open>Aggregation in parts\<close>

subsection \<open>Lists of keys and values\<close>









subsection \<open>Concatenating tables of one layout\<close>













lemma dtype_of_column_of: "dtype_of (column_of d ps) = d"
  by (cases d) simp_all






subsection \<open>Stringifying and grouping a table of one layout\<close>



















subsection \<open>The aggregated table as a table of the same kind\<close>









subsection \<open>Summing matching groups\<close>



subsection \<open>The parts of a study\<close>












end
